theory Spec2Isabelle
  imports Complex_Main
begin

section \<open>Numbers and vectors\<close>

text \<open>
  The program is one JavaScript module, \<^verbatim>\<open>src/index.js\<close>, of React components.
  JavaScript numbers are modelled as \<^typ>\<open>real\<close>: the arithmetic of the model is exact,
  rounding of the double-precision operations is not represented. Arrays of two and three
  numbers are tuples.
\<close>

type_synonym vec2 = "real \<times> real"
type_synonym vec3 = "real \<times> real \<times> real"

section \<open>Image: the hover state and the mesh scale\<close>

text \<open>
  \<^verbatim>\<open>const [hovered, setHover] = useState(false)\<close>, with the two callbacks
  \<^verbatim>\<open>hover = () => setHover(true)\<close> and \<^verbatim>\<open>unhover = () => setHover(false)\<close>
  bound to the mesh's \<^verbatim>\<open>onHover\<close> and \<^verbatim>\<open>onUnhover\<close>.
\<close>

datatype pointer_event = Hover | Unhover

definition hovered_init :: bool where
  "hovered_init = False"

fun setHover :: "pointer_event \<Rightarrow> bool \<Rightarrow> bool" where
  "setHover Hover hovered = True"
| "setHover Unhover hovered = False"

text \<open>\<^verbatim>\<open>useSpring({ factor: hovered ? 1.25 : 1 })\<close>: the value the spring is sent to.\<close>

definition factor_target :: "bool \<Rightarrow> real" where
  "factor_target hovered = (if hovered then 1.25 else 1)"

text \<open>\<^verbatim>\<open>scale={factor.interpolate(f => [scale * f, scale * f, 1])}\<close>\<close>

definition mesh_scale :: "real \<Rightarrow> real \<Rightarrow> vec3" where
  "mesh_scale scale f = (scale * f, scale * f, 1)"

section \<open>Stars: the per-frame callback\<close>

text \<open>
  \<^verbatim>\<open>THREE.Math.degToRad\<close> belongs to the three.js library: degrees times
  \<^verbatim>\<open>DEG2RAD = Math.PI / 180\<close>.
\<close>

definition DEG2RAD :: real where
  "DEG2RAD = pi / 180"

definition degToRad :: "real \<Rightarrow> real" where
  "degToRad degrees = degrees * DEG2RAD"

text \<open>
  The state the callback of \<^verbatim>\<open>useRender\<close> works on: the captured variable
  \<^verbatim>\<open>theta\<close> and the rotation and scale of \<^verbatim>\<open>group.current\<close>. A new three.js
  group has rotation \<open>(0, 0, 0)\<close> and scale \<open>(1, 1, 1)\<close>.
\<close>

record stars =
  theta :: real
  group_rotation :: vec3
  group_scale :: vec3

definition Stars_init :: stars where
  "Stars_init = \<lparr>theta = 0, group_rotation = (0, 0, 0), group_scale = (1, 1, 1)\<rparr>"

text \<open>
  \<^verbatim>\<open>
  const r = 5 * Math.sin(THREE.Math.degToRad((theta += 0.01)))
  const s = Math.cos(THREE.Math.degToRad(theta * 2))
  group.current.rotation.set(r, r, r)
  group.current.scale.set(s, s, s)
  \<close>
  The compound assignment yields the new value of \<^verbatim>\<open>theta\<close>, which both lines use.
\<close>

definition Stars_render :: "stars \<Rightarrow> stars" where
  "Stars_render g =
     (let theta' = theta g + 0.01;
          r = 5 * sin (degToRad theta');
          s = cos (degToRad (theta' * 2))
      in \<lparr>theta = theta', group_rotation = (r, r, r), group_scale = (s, s, s)\<rparr>)"

fun frames :: "nat \<Rightarrow> stars \<Rightarrow> stars" where
  "frames 0 g = g"
| "frames (Suc n) g = Stars_render (frames n g)"

section \<open>Main: the two springs and the event handlers\<close>

text \<open>
  \<^verbatim>\<open>const [{ top, mouse }, set] = useSpring(() => ({ top: 0, mouse: [0, 0] }))\<close>.
  Each animated value has its current value and the target the last \<^verbatim>\<open>set\<close> gave it;
  at the start both are the values of the initialiser.
\<close>

record springs =
  spring_top :: real
  spring_mouse :: vec2
  target_top :: real
  target_mouse :: vec2

definition Main_init :: springs where
  "Main_init = \<lparr>spring_top = 0, spring_mouse = (0, 0), target_top = 0, target_mouse = (0, 0)\<rparr>"

record window =
  innerWidth :: real
  innerHeight :: real

text \<open>
  \<^verbatim>\<open>onMouseMove = ({ clientX: x, clientY: y }) =>
      set({ mouse: [x - window.innerWidth / 2, y - window.innerHeight / 2] })\<close> and
  \<^verbatim>\<open>onScroll = e => set({ top: e.target.scrollTop })\<close>.
\<close>

definition onMouseMove :: "window \<Rightarrow> real \<Rightarrow> real \<Rightarrow> springs \<Rightarrow> springs" where
  "onMouseMove w x y s = s\<lparr>target_mouse := (x - innerWidth w / 2, y - innerHeight w / 2)\<rparr>"

definition onScroll :: "real \<Rightarrow> springs \<Rightarrow> springs" where
  "onScroll scrollTop s = s\<lparr>target_top := scrollTop\<rparr>"

datatype dom_event = Scroll real | MouseMove real real

fun handle :: "window \<Rightarrow> dom_event \<Rightarrow> springs \<Rightarrow> springs" where
  "handle w (Scroll scrollTop) s = onScroll scrollTop s"
| "handle w (MouseMove x y) s = onMouseMove w x y s"

fun handle_all :: "window \<Rightarrow> dom_event list \<Rightarrow> springs \<Rightarrow> springs" where
  "handle_all w [] s = s"
| "handle_all w (e # es) s = handle_all w es (handle w e s)"

section \<open>Interpolation of an animated value\<close>

text \<open>
  The method \<^verbatim>\<open>interpolate(range, output)\<close> of an animated value belongs to the animation
  library (react-spring), which is not among the sources. Every call in \<^verbatim>\<open>Scene\<close> passes
  the two arrays and no extrapolation option, and the library then extends the first and
  the last segment beyond the end stops. What the library computes in that case:
  \<^item> the segment is the first one whose upper stop is not below the input, and the last
    segment when there is none (the library's \<^verbatim>\<open>findRange\<close>:
    \<^verbatim>\<open>for (i = 1; i < range.length - 1; ++i) if (range[i] >= input) break; return i - 1\<close>);
  \<^item> on the segment, equal outputs give that output; equal stops give the first output up to
    the stop and the second beyond it; otherwise the result is
    \<^verbatim>\<open>(input - inputMin) / (inputMax - inputMin) * (outputMax - outputMin) + outputMin\<close>,
    for inputs outside the segment too.
  With fewer than two stops the library has no number to give: the model has no result.
\<close>

definition segment :: "real \<Rightarrow> real \<Rightarrow> real \<Rightarrow> real \<Rightarrow> real \<Rightarrow> real" where
  "segment inputMin inputMax outputMin outputMax input =
     (if outputMin = outputMax then outputMin
      else if inputMin = inputMax then (if input \<le> inputMin then outputMin else outputMax)
      else (input - inputMin) / (inputMax - inputMin) * (outputMax - outputMin) + outputMin)"

fun ramp :: "real \<times> real \<Rightarrow> real \<times> real \<Rightarrow> (real \<times> real) list \<Rightarrow> real \<Rightarrow> real" where
  "ramp (x0, y0) (x1, y1) [] t = segment x0 x1 y0 y1 t"
| "ramp (x0, y0) (x1, y1) (p # ps) t =
     (if t \<le> x1 then segment x0 x1 y0 y1 t else ramp (x1, y1) p ps t)"

definition interpolate :: "real list \<Rightarrow> real list \<Rightarrow> real \<Rightarrow> real option" where
  "interpolate rng output t =
     (case zip rng output of p # q # ps \<Rightarrow> Some (ramp p q ps t) | _ \<Rightarrow> None)"

text \<open>
  When the outputs are colours written \<^verbatim>\<open>#rrggbb\<close>, the library reads each as its red,
  green and blue channels (0 to 255), interpolates every channel as above and rounds it
  with \<^verbatim>\<open>Math.round\<close>, the nearest integer, a half going up. The result is the triple of
  the rounded channels; the alpha channel is 1 in every colour here and stays 1.
\<close>

type_synonym color = "real \<times> real \<times> real"

definition hex_digit :: "char \<Rightarrow> nat option" where
  "hex_digit c =
     (let n = (of_char c :: nat) in
      if 48 \<le> n \<and> n \<le> 57 then Some (n - 48)
      else if 65 \<le> n \<and> n \<le> 70 then Some (n - 55)
      else if 97 \<le> n \<and> n \<le> 102 then Some (n - 87)
      else None)"

definition hex_byte :: "char \<Rightarrow> char \<Rightarrow> real option" where
  "hex_byte hi lo =
     (case (hex_digit hi, hex_digit lo) of
        (Some a, Some b) \<Rightarrow> Some (real (16 * a + b))
      | _ \<Rightarrow> None)"

fun hex_color :: "string \<Rightarrow> color option" where
  "hex_color [h, r1, r0, g1, g0, b1, b0] =
     (if h = CHR ''#'' then
        (case (hex_byte r1 r0, hex_byte g1 g0, hex_byte b1 b0) of
           (Some r, Some g, Some b) \<Rightarrow> Some (r, g, b)
         | _ \<Rightarrow> None)
      else None)"
| "hex_color _ = None"

definition red :: "color \<Rightarrow> real" where "red c = fst c"
definition green :: "color \<Rightarrow> real" where "green c = fst (snd c)"
definition blue :: "color \<Rightarrow> real" where "blue c = snd (snd c)"

definition Math_round :: "real \<Rightarrow> real" where
  "Math_round x = of_int \<lfloor>x + 1 / 2\<rfloor>"

definition interpolate_color :: "real list \<Rightarrow> string list \<Rightarrow> real \<Rightarrow> color option" where
  "interpolate_color rng output t =
     (case those (map hex_color output) of
        None \<Rightarrow> None
      | Some cs \<Rightarrow>
          (case (interpolate rng (map red cs) t,
                 interpolate rng (map green cs) t,
                 interpolate rng (map blue cs) t) of
             (Some r, Some g, Some b) \<Rightarrow> Some (Math_round r, Math_round g, Math_round b)
           | _ \<Rightarrow> None))"

section \<open>Effects: the glitch pass\<close>

text \<open>\<^verbatim>\<open><anim.glitchPass name="passes" renderToScreen factor={factor} />\<close>\<close>

record glitchPass =
  renderToScreen :: bool
  pass_factor :: "real option"

definition Effects :: "real option \<Rightarrow> glitchPass" where
  "Effects factor = \<lparr>renderToScreen = True, pass_factor = factor\<rparr>"

section \<open>Scene: the derived parameters of every layer\<close>

text \<open>
  What \<^verbatim>\<open>Scene\<close> hands to its children, at the current values \<open>top'\<close> and \<open>mouse\<close>
  of the two animated values (\<open>top\<close> itself is a constant of the logic). A property that is not passed (\<^verbatim>\<open>undefined\<close>) is
  \<open>None\<close>; so is a position whose formula divides by a \<^verbatim>\<open>scrollMax\<close> of zero,
  where JavaScript gives no finite number.
\<close>

record image_props =
  img_url :: string
  img_scale :: real
  img_opacity :: "real option"
  img_position :: "vec3 option"

record text_props =
  txt_children :: string
  txt_position :: "vec3 option"
  txt_opacity :: "real option"
  txt_color :: "string option"
  txt_fontSize :: "real option"

record scene =
  light_position :: vec3
  effects :: glitchPass
  background_color :: "color option"
  stars_position :: vec3
  images :: "image_props list"
  texts :: "text_props list"

text \<open>
  The rows of \<^verbatim>\<open>./data\<close>, which is not among the sources and is a parameter here:
  \<^verbatim>\<open>[url, x, y, factor, z, scale]\<close>.
\<close>

type_synonym data_row = "string \<times> real \<times> real \<times> real \<times> real \<times> real"

text \<open>
  \<^verbatim>\<open>size.height\<close>, the height of the canvas in pixels that \<^verbatim>\<open>useThree()\<close> reports: a
  number that is never negative.
\<close>

typedef extent = "{x :: real. 0 \<le> x}"
  morphisms px Extent
  by (rule exI [of _ 0]) simp

definition scrollMax :: "extent \<Rightarrow> real" where
  "scrollMax height = px height * 4.5"

text \<open>
  \<^verbatim>\<open>
  position={interpolate([top, mouse], (top, mouse) => [
    (-mouse[0] * factor) / 50000 + x,
    (mouse[1] * factor) / 50000 + y * 1.15 + ((top * factor) / scrollMax) * 2,
    z + top / 2000
  ])}
  \<close>
\<close>

definition image_position :: "extent \<Rightarrow> real \<Rightarrow> vec2 \<Rightarrow> real \<Rightarrow> real \<Rightarrow> real \<Rightarrow> real \<Rightarrow> vec3 option" where
  "image_position height top' mouse x y factor z =
     (if scrollMax height = 0 then None
      else Some ((- fst mouse * factor) / 50000 + x,
                 (snd mouse * factor) / 50000 + y * 1.15 + ((top' * factor) / scrollMax height) * 2,
                 z + top' / 2000))"

fun Image_props :: "extent \<Rightarrow> real \<Rightarrow> vec2 \<Rightarrow> data_row \<Rightarrow> image_props" where
  "Image_props height top' mouse (url, x, y, factor, z, scale) =
     \<lparr>img_url = url,
      img_scale = scale,
      img_opacity = interpolate [0, 500] [0, 1] top',
      img_position = image_position height top' mouse x y factor z\<rparr>"

definition Scene :: "extent \<Rightarrow> data_row list \<Rightarrow> real \<Rightarrow> vec2 \<Rightarrow> scene" where
  "Scene height data top' mouse =
     \<lparr>light_position = (fst mouse / 100, - snd mouse / 100, 6.5),
      effects = Effects (interpolate [0, 150] [1, 0] top'),
      background_color =
        interpolate_color
          [0, scrollMax height * 0.25, scrollMax height * 0.5, scrollMax height]
          [''#27282F'', ''#247BA0'', ''#70C1B3'', ''#e8f3f1''] top',
      stars_position = (0, - 1 + top' / 20, 0),
      images = map (Image_props height top' mouse) data,
      texts =
        [\<lparr>txt_children = ''lorem'',
          txt_position = Some (0, - 1 + top' / 200, 0),
          txt_opacity = interpolate [0, 200] [1, 0] top',
          txt_color = None,
          txt_fontSize = None\<rparr>,
         \<lparr>txt_children = ''Ipsum'',
          txt_position =
            (if scrollMax height = 0 then None
             else Some (0, - 19 + ((top' * 10) / scrollMax height) * 2, 0)),
          txt_opacity = None,
          txt_color = Some ''black'',
          txt_fontSize = Some 150\<rparr>]\<rparr>"

section \<open>Text: the memoised canvas\<close>

text \<open>
  The canvas the text is drawn on: its size, the pixel size of the font (the font string
  is \<^verbatim>\<open>bold ${fontSize}px\<close> and a fixed list of families), alignment, baseline, fill
  style, and the one call \<^verbatim>\<open>fillText(children, 1024, 1024 - 410 / 2)\<close>.
\<close>

record canvas =
  canvas_width :: real
  canvas_height :: real
  font_px :: real
  textAlign :: string
  textBaseline :: string
  fillStyle :: string
  fillText :: "string \<times> real \<times> real"

definition draw_canvas :: "string \<Rightarrow> string \<Rightarrow> real \<Rightarrow> canvas" where
  "draw_canvas children color fontSize =
     \<lparr>canvas_width = 2048,
      canvas_height = 2048,
      font_px = fontSize,
      textAlign = ''center'',
      textBaseline = ''middle'',
      fillStyle = color,
      fillText = (children, 1024, 1024 - 410 / 2)\<rparr>"

text \<open>
  Modelled from the spec: \<^verbatim>\<open>useMemo(create, deps)\<close> is a hook of the React library,
  which is not among the sources. The spec has the bitmap ``regenerated when the string or
  viewport size changes'', the dependencies the source lists: the cell of the hook keeps
  the dependencies and the value of the last computation, and \<^verbatim>\<open>create\<close> runs again
  only when a dependency differs from the kept one.
\<close>

definition useMemo :: "('d \<times> 'v) option \<Rightarrow> (unit \<Rightarrow> 'v) \<Rightarrow> 'd \<Rightarrow> 'v \<times> ('d \<times> 'v) option" where
  "useMemo cell create deps =
     (case cell of
        None \<Rightarrow> (let v = create () in (v, Some (deps, v)))
      | Some (d, v) \<Rightarrow>
          if d = deps then (v, cell)
          else (let v' = create () in (v', Some (deps, v'))))"

type_synonym text_memo = "((string \<times> real \<times> real) \<times> canvas) option"

record sprite =
  sprite_scale :: vec3
  sprite_position :: "vec3 option"
  sprite_opacity :: "real option"
  sprite_image :: canvas

text \<open>
  \<^verbatim>\<open>function Text({ children, position, opacity, color = 'white', fontSize = 410 })\<close>,
  rendered with the \<^verbatim>\<open>size\<close> and the \<^verbatim>\<open>viewport()\<close> of \<^verbatim>\<open>useThree()\<close>, each a
  pair of width and height. The dependencies of the memo are
  \<^verbatim>\<open>[children, size.width, size.height]\<close>.
\<close>

definition Text :: "text_props \<Rightarrow> vec2 \<Rightarrow> vec2 \<Rightarrow> text_memo \<Rightarrow> sprite \<times> text_memo" where
  "Text props size' viewport cell =
     (let color = (case txt_color props of None \<Rightarrow> ''white'' | Some c \<Rightarrow> c);
          fontSize = (case txt_fontSize props of None \<Rightarrow> 410 | Some n \<Rightarrow> n);
          scale = (if fst viewport > snd viewport then fst viewport else snd viewport);
          (canvas, cell') =
             useMemo cell (\<lambda>_. draw_canvas (txt_children props) color fontSize)
               (txt_children props, fst size', snd size')
      in (\<lparr>sprite_scale = (scale, scale, 1),
           sprite_position = txt_position props,
           sprite_opacity = txt_opacity props,
           sprite_image = canvas\<rparr>, cell'))"

text \<open>A sequence of renders of one \<^verbatim>\<open>Text\<close>, from a cell, each with its inputs.\<close>

fun Text_renders :: "(text_props \<times> vec2 \<times> vec2) list \<Rightarrow> text_memo \<Rightarrow> sprite list \<times> text_memo" where
  "Text_renders [] cell = ([], cell)"
| "Text_renders ((props, size', viewport) # rs) cell =
     (let (sp, cell') = Text props size' viewport cell;
          (sps, cell'') = Text_renders rs cell'
      in (sp # sps, cell''))"

section \<open>Notions the statements use\<close>

text \<open>
  The straight line between two colours, channel by channel: \<open>mix c d 0 = c\<close> and
  \<open>mix c d 1 = d\<close>.
\<close>

definition mix :: "color \<Rightarrow> color \<Rightarrow> real \<Rightarrow> color" where
  "mix c d u =
     (red c + u * (red d - red c),
      green c + u * (green d - green c),
      blue c + u * (blue d - blue c))"

text \<open>
  \<open>toward a b p q\<close>: from \<open>p\<close> to \<open>q\<close> the value moves the way it moves from \<open>a\<close> to
  \<open>b\<close>, up when \<open>a \<le> b\<close> and down otherwise; \<open>toward_color\<close> says so of every channel.
\<close>

definition toward :: "real \<Rightarrow> real \<Rightarrow> real \<Rightarrow> real \<Rightarrow> bool" where
  "toward a b p q = (if a \<le> b then p \<le> q else q \<le> p)"

text \<open>A colour with every channel rounded as \<^verbatim>\<open>Math.round\<close> rounds.\<close>

definition round_color :: "color \<Rightarrow> color" where
  "round_color c = (Math_round (red c), Math_round (green c), Math_round (blue c))"

definition toward_color :: "color \<Rightarrow> color \<Rightarrow> color \<Rightarrow> color \<Rightarrow> bool" where
  "toward_color c d p q =
     (toward (red c) (red d) (red p) (red q)
      \<and> toward (green c) (green d) (green p) (green q)
      \<and> toward (blue c) (blue d) (blue p) (blue q))"

text \<open>A memo cell is empty or holds a canvas whose text was drawn at the fixed position.\<close>

definition drawn_at :: "text_memo \<Rightarrow> bool" where
  "drawn_at cell =
     (case cell of
        None \<Rightarrow> True
      | Some (deps, cv) \<Rightarrow> snd (fillText cv) = (1024, 1024 - 410 / 2))"

text \<open>Concrete inputs: the properties of a text.\<close>

definition lorem_props :: text_props where
  "lorem_props =
     \<lparr>txt_children = ''lorem'', txt_position = None, txt_opacity = None,
      txt_color = None, txt_fontSize = None\<rparr>"

section \<open>Image: hover and scale\<close>

text \<open>
  Claim C8: for every value \<open>f\<close> of the hover spring the scale of the image mesh is
  \<open>[scale * f, scale * f, 1]\<close>; its third component is 1 whatever the hover state and
  the base scale are.
\<close>

theorem mesh_scale_z:
  "mesh_scale scale f = (scale * f, scale * f, 1) \<and> snd (snd (mesh_scale scale f)) = 1"
  by (simp add: mesh_scale_def)

text \<open>
  Claim C5: the hover state is a boolean that the pointer entering sets and the pointer
  leaving clears; the spring of the scale factor is sent to 1.25 when hovered and to 1
  when not. Once the factor is within a tolerance \<open>e\<close> of the target 1.25, the
  rendered scale is within \<open>\<bar>scale\<bar> * e\<close> of \<open>scale * 1.25\<close> on both scaled axes; at
  the target itself it is \<open>scale * 1.25\<close>.
\<close>

theorem hover_target_scale:
  "hovered_init = False
   \<and> factor_target (setHover Hover h) = 1.25
   \<and> factor_target (setHover Unhover h) = 1
   \<and> (\<forall>f e. \<bar>f - factor_target (setHover Hover h)\<bar> \<le> e \<longrightarrow>
         \<bar>fst (mesh_scale s f) - s * 1.25\<bar> \<le> \<bar>s\<bar> * e
         \<and> \<bar>fst (snd (mesh_scale s f)) - s * 1.25\<bar> \<le> \<bar>s\<bar> * e)"
proof -
  have "\<bar>s * f - s * 1.25\<bar> \<le> \<bar>s\<bar> * e" if "\<bar>f - 1.25\<bar> \<le> e" for f e
  proof -
    have "\<bar>s * f - s * 1.25\<bar> = \<bar>s\<bar> * \<bar>f - 1.25\<bar>"
      by (simp only: right_diff_distrib [symmetric] abs_mult)
    also have "\<dots> \<le> \<bar>s\<bar> * e"
      using that by (simp add: mult_left_mono)
    finally show ?thesis .
  qed
  then show ?thesis
    by (simp add: factor_target_def mesh_scale_def hovered_init_def)
qed

theorem hover_target_scale_witness:
  "\<bar>1.25 - factor_target (setHover Hover False)\<bar> \<le> 0
   \<and> \<bar>fst (mesh_scale 2 1.25) - 2 * 1.25\<bar> \<le> \<bar>2\<bar> * 0
   \<and> fst (mesh_scale 2 1.25) = 2.5"
  using hover_target_scale [of False 2] by (simp add: factor_target_def mesh_scale_def)

section \<open>Stars: the angle and what each frame sets\<close>

lemma theta_frames: "theta (frames N g) = theta g + 0.01 * real N"
  by (induction N) (simp_all add: Stars_render_def Let_def algebra_simps)

lemma Stars_render_fields:
  "theta (Stars_render g) = theta g + 0.01"
  "group_rotation (Stars_render g) =
     (5 * sin (degToRad (theta g + 0.01)),
      5 * sin (degToRad (theta g + 0.01)),
      5 * sin (degToRad (theta g + 0.01)))"
  "group_scale (Stars_render g) =
     (cos (degToRad ((theta g + 0.01) * 2)),
      cos (degToRad ((theta g + 0.01) * 2)),
      cos (degToRad ((theta g + 0.01) * 2)))"
  by (simp_all add: Stars_render_def Let_def)

lemma small_angle: "0 < degToRad 0.01 \<and> degToRad 0.01 < pi"
proof -
  have "pi / 18000 < pi" using pi_gt_zero by simp
  then show ?thesis by (simp add: degToRad_def DEG2RAD_def)
qed

lemma scale_angle: "cos 0.02 < cos (degToRad 0.02)"
proof -
  have a: "0 \<le> degToRad 0.02"
    using pi_gt_zero by (simp add: degToRad_def DEG2RAD_def)
  have "pi < 180" using pi_less_4 by linarith
  then have b: "degToRad 0.02 < 0.02"
    by (simp add: degToRad_def DEG2RAD_def)
  have "(0.02::real) \<le> 2" by simp
  then have c: "(0.02::real) \<le> pi" using pi_ge_two by (rule order_trans)
  show ?thesis using a b c by (rule cos_monotone_0_pi)
qed

text \<open>
  Claim C2, as the code has it: in exact arithmetic the angle is \<open>0.01 * N\<close> after
  \<open>N\<close> frames and grows with every frame; the frame that brings the angle to \<open>a\<close>
  sets the rotation of the group to \<open>5 * sin (degToRad a)\<close> on the three axes and its
  scale to \<open>cos (degToRad (2 * a))\<close> on the three axes.
\<close>

theorem Stars_angle_rotation_scale:
  "theta (frames N Stars_init) = 0.01 * real N
   \<and> theta (frames N Stars_init) < theta (frames (Suc N) Stars_init)
   \<and> group_rotation (frames (Suc N) Stars_init) =
       (5 * sin (degToRad (0.01 * real (Suc N))),
        5 * sin (degToRad (0.01 * real (Suc N))),
        5 * sin (degToRad (0.01 * real (Suc N))))
   \<and> group_scale (frames (Suc N) Stars_init) =
       (cos (degToRad (2 * (0.01 * real (Suc N)))),
        cos (degToRad (2 * (0.01 * real (Suc N)))),
        cos (degToRad (2 * (0.01 * real (Suc N)))))"
proof -
  let ?g = "frames N Stars_init"
  have t: "theta ?g = 0.01 * real N"
    by (simp add: theta_frames Stars_init_def)
  have t': "theta ?g + 0.01 = 0.01 * real (Suc N)"
    by (simp add: t algebra_simps)
  have t2: "(theta ?g + 0.01) * 2 = 2 * (0.01 * real (Suc N))"
    by (simp only: t' mult.commute)
  have "theta ?g < theta (frames (Suc N) Stars_init)"
    by (simp add: Stars_render_fields)
  moreover have "group_rotation (frames (Suc N) Stars_init) =
       (5 * sin (degToRad (0.01 * real (Suc N))),
        5 * sin (degToRad (0.01 * real (Suc N))),
        5 * sin (degToRad (0.01 * real (Suc N))))"
    by (simp only: frames.simps Stars_render_fields t')
  moreover have "group_scale (frames (Suc N) Stars_init) =
       (cos (degToRad (2 * (0.01 * real (Suc N)))),
        cos (degToRad (2 * (0.01 * real (Suc N)))),
        cos (degToRad (2 * (0.01 * real (Suc N)))))"
    by (simp only: frames.simps Stars_render_fields t2)
  ultimately show ?thesis
    using t by blast
qed

text \<open>
  Claim C2 as the spec states it fails at the first frame: the angle is then 0.01, the
  rotation is \<open>5 * sin (degToRad 0.01)\<close> and not \<open>sin (degToRad 0.01)\<close>, and the scale is
  \<open>cos (degToRad 0.02)\<close> and not \<open>cos 0.02\<close>.
\<close>

theorem Stars_rotation_counterexample:
  "group_rotation (frames 1 Stars_init) \<noteq>
     (sin (degToRad (theta (frames 1 Stars_init))),
      sin (degToRad (theta (frames 1 Stars_init))),
      sin (degToRad (theta (frames 1 Stars_init))))
   \<and> group_scale (frames 1 Stars_init) \<noteq>
     (cos (2 * theta (frames 1 Stars_init)),
      cos (2 * theta (frames 1 Stars_init)),
      cos (2 * theta (frames 1 Stars_init)))"
proof -
  have "0 < sin (degToRad 0.01)"
    using small_angle by (simp add: sin_gt_zero)
  moreover have "cos 0.02 \<noteq> cos (degToRad 0.02)"
    using scale_angle by simp
  ultimately show ?thesis
    by (simp add: Stars_render_def Stars_init_def Let_def)
qed

section \<open>Main: initial values and event handlers\<close>

text \<open>
  Claim C10: at the start, before any scroll or pointer-move event, the two animated
  values are \<open>top = 0\<close> and \<open>mouse = [0, 0]\<close>.
\<close>

theorem Main_initial_values:
  "spring_top Main_init = 0 \<and> spring_mouse Main_init = (0, 0)
   \<and> handle_all w [] Main_init = Main_init"
  by (simp add: Main_init_def)

text \<open>
  Claim C7: a scroll event with offset \<open>scrollTop\<close> sets the target of \<open>top\<close> to
  \<open>scrollTop\<close>; a pointer-move event at \<open>(x, y)\<close> sets the target of \<open>mouse\<close> to
  \<open>(x - innerWidth / 2, y - innerHeight / 2)\<close>, the offset from the middle of the viewport.
\<close>

theorem handlers_set_targets:
  "target_top (handle w (Scroll scrollTop) s) = scrollTop
   \<and> target_mouse (handle w (MouseMove x y) s) = (x - innerWidth w / 2, y - innerHeight w / 2)"
  by (simp add: onScroll_def onMouseMove_def)

section \<open>Scene: the interpolated parameters\<close>


lemma segment_line:
  "x0 \<noteq> x1 \<Longrightarrow> segment x0 x1 y0 y1 t = y0 + (t - x0) * (y1 - y0) / (x1 - x0)"
  by (simp add: segment_def)


lemma factor_ramp: "interpolate [0, 150] [1, 0] t = Some (1 - t / 150)"
  by (simp add: interpolate_def segment_def)

text \<open>
  Claim C1, as the code has it: the factor of the glitch pass is the line \<open>1 - top / 150\<close>
  of the scroll value, 1 at 0 and 0 at 150, and it is not clamped at the ends of
  \<open>[0, 150]\<close>: at \<open>150 + x\<close> it is \<open>- x / 150\<close>, below 0 for every scroll value above 150.
\<close>

theorem glitch_factor_line:
  "pass_factor (effects (Scene h d t m)) = Some (1 - t / 150)
   \<and> pass_factor (effects (Scene h d 0 m)) = Some 1
   \<and> pass_factor (effects (Scene h d 150 m)) = Some 0
   \<and> pass_factor (effects (Scene h d (150 + x) m)) = Some (- x / 150)"
  by (simp add: Scene_def Effects_def factor_ramp add_divide_distrib)

text \<open>
  Claim C1 as the spec states it fails above 150: at the scroll value 300 the factor is
  \<open>- 1\<close>, not 0.
\<close>

theorem glitch_factor_counterexample:
  "(150 :: real) < 300
   \<and> pass_factor (effects (Scene (Extent 800) [] 300 (0, 0))) = Some (- 1)
   \<and> pass_factor (effects (Scene (Extent 800) [] 300 (0, 0))) \<noteq> Some 0"
  by (simp add: Scene_def Effects_def factor_ramp)

lemma hex_stops:
  "hex_color ''#27282F'' = Some (39, 40, 47)"
  "hex_color ''#247BA0'' = Some (36, 123, 160)"
  "hex_color ''#70C1B3'' = Some (112, 193, 179)"
  "hex_color ''#e8f3f1'' = Some (232, 243, 241)"
  by (simp_all add: hex_byte_def hex_digit_def)

lemma background_channels:
  "background_color (Scene h d t m) =
     Some (Math_round (ramp (0, 39) (scrollMax h * 0.25, 36) [(scrollMax h * 0.5, 112), (scrollMax h, 232)] t),
           Math_round (ramp (0, 40) (scrollMax h * 0.25, 123) [(scrollMax h * 0.5, 193), (scrollMax h, 243)] t),
           Math_round (ramp (0, 47) (scrollMax h * 0.25, 160) [(scrollMax h * 0.5, 179), (scrollMax h, 241)] t))"
  by (simp add: Scene_def interpolate_color_def hex_stops interpolate_def red_def green_def
      blue_def del: hex_color.simps ramp.simps)

lemma Math_round_int: "Math_round (of_int n) = of_int n"
  by (simp add: Math_round_def)

lemma Math_round_numeral: "Math_round (numeral n) = numeral n"
  using Math_round_int [of "numeral n"] by simp




section \<open>Background: the colour ramp\<close>

lemma ramp4_line1:
  assumes "0 < x1" "x1 < x2" "x2 < x3" "t \<le> x1"
  shows "ramp (0, a) (x1, b) [(x2, c), (x3, e)] t = a + (t - 0) * (b - a) / x1"
  using assms by (simp add: segment_line)

lemma ramp4_line2:
  assumes "0 < x1" "x1 < x2" "x2 < x3" "x1 \<le> t" "t \<le> x2"
  shows "ramp (0, a) (x1, b) [(x2, c), (x3, e)] t = b + (t - x1) * (c - b) / (x2 - x1)"
proof (cases "t = x1")
  case True
  then show ?thesis using assms by (simp add: segment_line)
next
  case False
  then have "\<not> t \<le> x1" using assms by simp
  then show ?thesis using assms by (simp add: segment_line)
qed

lemma ramp4_line3:
  assumes "0 < x1" "x1 < x2" "x2 < x3" "x2 \<le> t"
  shows "ramp (0, a) (x1, b) [(x2, c), (x3, e)] t = c + (t - x2) * (e - c) / (x3 - x2)"
proof (cases "t = x2")
  case True
  then show ?thesis using assms by (simp add: segment_line)
next
  case False
  then have "\<not> t \<le> x2" "\<not> t \<le> x1" using assms by simp_all
  then show ?thesis using assms by (simp add: segment_line)
qed

lemma part_of_length:
  fixes u len :: real
  assumes "0 < len" "0 \<le> u" "u \<le> 1"
  shows "0 \<le> u * len" and "u * len \<le> len"
  using assms by (simp_all add: mult_left_le_one_le mult.commute)

lemma ramp4_seg1:
  assumes "0 < x1" "x1 < x2" "x2 < x3" "u \<le> 1"
  shows "ramp (0, a) (x1, b) [(x2, c), (x3, e)] (u * x1) = a + u * (b - a)"
proof -
  have "u * x1 \<le> 1 * x1"
    using assms by (intro mult_right_mono) simp_all
  then have "u * x1 \<le> x1" by simp
  then have "ramp (0, a) (x1, b) [(x2, c), (x3, e)] (u * x1) = a + (u * x1 - 0) * (b - a) / x1"
    using assms by (intro ramp4_line1)
  also have "\<dots> = a + u * (b - a)"
    using assms by simp
  finally show ?thesis .
qed

lemma ramp4_seg2:
  assumes "0 < x1" "x1 < x2" "x2 < x3" "0 \<le> u" "u \<le> 1"
  shows "ramp (0, a) (x1, b) [(x2, c), (x3, e)] (x1 + u * (x2 - x1)) = b + u * (c - b)"
proof -
  have "0 \<le> u * (x2 - x1)" "u * (x2 - x1) \<le> x2 - x1"
    using assms part_of_length [of "x2 - x1" u] by simp_all
  then have "x1 \<le> x1 + u * (x2 - x1)" "x1 + u * (x2 - x1) \<le> x2"
    by simp_all
  then have "ramp (0, a) (x1, b) [(x2, c), (x3, e)] (x1 + u * (x2 - x1)) =
      b + (x1 + u * (x2 - x1) - x1) * (c - b) / (x2 - x1)"
    using assms by (intro ramp4_line2)
  also have "\<dots> = b + u * (c - b)"
    using assms by simp
  finally show ?thesis .
qed

lemma ramp4_seg3:
  assumes "0 < x1" "x1 < x2" "x2 < x3" "0 \<le> u"
  shows "ramp (0, a) (x1, b) [(x2, c), (x3, e)] (x2 + u * (x3 - x2)) = c + u * (e - c)"
proof -
  have "0 \<le> u * (x3 - x2)"
    using assms by simp
  then have "x2 \<le> x2 + u * (x3 - x2)"
    by simp
  then have "ramp (0, a) (x1, b) [(x2, c), (x3, e)] (x2 + u * (x3 - x2)) =
      c + (x2 + u * (x3 - x2) - x2) * (e - c) / (x3 - x2)"
    using assms by (intro ramp4_line3)
  also have "\<dots> = c + u * (e - c)"
    using assms by simp
  finally show ?thesis .
qed

lemma line_toward:
  assumes "0 < len" "t1 \<le> t2"
  shows "toward a b (a + (t1 - s) * (b - a) / len) (a + (t2 - s) * (b - a) / len)"
proof (cases "a \<le> b")
  case True
  then have "(t1 - s) * (b - a) \<le> (t2 - s) * (b - a)"
    using assms by (simp add: mult_right_mono)
  then show ?thesis using True assms by (simp add: toward_def divide_right_mono)
next
  case False
  then have "(t2 - s) * (b - a) \<le> (t1 - s) * (b - a)"
    using assms by (simp add: mult_right_mono_neg)
  then show ?thesis using False assms by (simp add: toward_def divide_right_mono)
qed

lemma Math_round_mono: "p \<le> q \<Longrightarrow> Math_round p \<le> Math_round q"
  by (simp add: Math_round_def floor_mono)

lemma toward_round: "toward a b p q \<Longrightarrow> toward a b (Math_round p) (Math_round q)"
  by (auto simp: toward_def Math_round_mono split: if_splits)

lemma ramp4_toward1:
  assumes "0 < x1" "x1 < x2" "x2 < x3" "t1 \<le> t2" "t2 \<le> x1"
  shows "toward a b (ramp (0, a) (x1, b) [(x2, c), (x3, e)] t1)
                    (ramp (0, a) (x1, b) [(x2, c), (x3, e)] t2)"
proof -
  have "t1 \<le> x1" using assms by simp
  then show ?thesis
    using assms line_toward [of x1 t1 t2 a b 0]
    by (simp add: ramp4_line1 del: ramp.simps)
qed

lemma ramp4_toward2:
  assumes "0 < x1" "x1 < x2" "x2 < x3" "x1 \<le> t1" "t1 \<le> t2" "t2 \<le> x2"
  shows "toward b c (ramp (0, a) (x1, b) [(x2, c), (x3, e)] t1)
                    (ramp (0, a) (x1, b) [(x2, c), (x3, e)] t2)"
proof -
  have "t1 \<le> x2" "x1 \<le> t2" using assms by simp_all
  then show ?thesis
    using assms line_toward [of "x2 - x1" t1 t2 b c x1]
    by (simp add: ramp4_line2 del: ramp.simps)
qed

lemma ramp4_toward3:
  assumes "0 < x1" "x1 < x2" "x2 < x3" "x2 \<le> t1" "t1 \<le> t2"
  shows "toward c e (ramp (0, a) (x1, b) [(x2, c), (x3, e)] t1)
                    (ramp (0, a) (x1, b) [(x2, c), (x3, e)] t2)"
proof -
  have "x2 \<le> t2" using assms by simp
  then show ?thesis
    using assms line_toward [of "x3 - x2" t1 t2 c e x2]
    by (simp add: ramp4_line3 del: ramp.simps)
qed

lemma stops_increase:
  assumes "0 < px h"
  shows "0 < scrollMax h * 0.25" "scrollMax h * 0.25 < scrollMax h * 0.5"
    "scrollMax h * 0.5 < scrollMax h"
  using assms by (simp_all add: scrollMax_def)

lemma background_linear:
  assumes "0 < px h"
  shows "u \<le> 1 \<Longrightarrow> background_color (Scene h d (u * (scrollMax h * 0.25)) m) =
           Some (round_color (mix (39, 40, 47) (36, 123, 160) u))"
    and "0 \<le> u \<Longrightarrow> u \<le> 1 \<Longrightarrow>
         background_color (Scene h d (scrollMax h * 0.25 + u * (scrollMax h * 0.5 - scrollMax h * 0.25)) m) =
           Some (round_color (mix (36, 123, 160) (112, 193, 179) u))"
    and "0 \<le> u \<Longrightarrow>
         background_color (Scene h d (scrollMax h * 0.5 + u * (scrollMax h - scrollMax h * 0.5)) m) =
           Some (round_color (mix (112, 193, 179) (232, 243, 241) u))"
  unfolding background_channels round_color_def mix_def red_def green_def blue_def fst_conv snd_conv
  by (simp_all only: ramp4_seg1 [OF stops_increase [OF assms]]
      ramp4_seg2 [OF stops_increase [OF assms]]
      ramp4_seg3 [OF stops_increase [OF assms]])

lemma background_stops:
  assumes "0 < px h"
  shows "background_color (Scene h d 0 m) = hex_color ''#27282F''"
    and "background_color (Scene h d (scrollMax h * 0.25) m) = hex_color ''#247BA0''"
    and "background_color (Scene h d (scrollMax h * 0.5) m) = hex_color ''#70C1B3''"
    and "background_color (Scene h d (scrollMax h) m) = hex_color ''#e8f3f1''"
  using background_linear(1) [OF assms, of 0 d m] background_linear(1) [OF assms, of 1 d m]
    background_linear(2) [OF assms, of 1 d m] background_linear(3) [OF assms, of 1 d m]
  by (simp_all add: hex_stops round_color_def mix_def red_def green_def blue_def
      Math_round_numeral del: hex_color.simps)

lemma background_monotone:
  assumes "0 < px h" "t1 \<le> t2"
  shows "0 \<le> t1 \<Longrightarrow> t2 \<le> scrollMax h * 0.25 \<Longrightarrow>
           \<exists>p q. background_color (Scene h d t1 m) = Some p
             \<and> background_color (Scene h d t2 m) = Some q
             \<and> toward_color (39, 40, 47) (36, 123, 160) p q"
    and "scrollMax h * 0.25 \<le> t1 \<Longrightarrow> t2 \<le> scrollMax h * 0.5 \<Longrightarrow>
           \<exists>p q. background_color (Scene h d t1 m) = Some p
             \<and> background_color (Scene h d t2 m) = Some q
             \<and> toward_color (36, 123, 160) (112, 193, 179) p q"
    and "scrollMax h * 0.5 \<le> t1 \<Longrightarrow> t2 \<le> scrollMax h \<Longrightarrow>
           \<exists>p q. background_color (Scene h d t1 m) = Some p
             \<and> background_color (Scene h d t2 m) = Some q
             \<and> toward_color (112, 193, 179) (232, 243, 241) p q"
  unfolding background_channels toward_color_def red_def green_def blue_def
  using ramp4_toward1 [OF stops_increase [OF assms(1)] assms(2), THEN toward_round]
    ramp4_toward2 [OF stops_increase [OF assms(1)] _ assms(2), THEN toward_round]
    ramp4_toward3 [OF stops_increase [OF assms(1)] _ assms(2), THEN toward_round]
  by (simp_all del: ramp.simps)

lemma height_100: "px (Extent 100) = 100" "scrollMax (Extent 100) = 450"
  by (simp_all add: scrollMax_def Extent_inverse)

lemma background_beyond:
  "background_color (Scene (Extent 100) [] 1000 (0, 0)) = Some (525, 365, 393)"
  "background_color (Scene (Extent 100) [] (- 20) (0, 0)) = Some (40, 25, 27)"
  by (simp_all add: background_channels height_100 segment_def Math_round_def)

text \<open>
  Claim C3, as the code has it: for a viewport of positive height the background colour is
  a ramp over the stops \<open>0\<close>, \<open>scrollMax * 0.25\<close>, \<open>scrollMax * 0.5\<close> and \<open>scrollMax\<close>
  through the four colours \<^verbatim>\<open>#27282F\<close>, \<^verbatim>\<open>#247BA0\<close>, \<^verbatim>\<open>#70C1B3\<close> and
  \<^verbatim>\<open>#e8f3f1\<close>, which it takes at the stops. Between two consecutive stops every channel
  is the straight line between their colours, rounded to the nearest integer, so it moves
  one way there. Outside \<open>[0, scrollMax]\<close> the colour is not clamped: below 0 every channel
  goes on along the line of the first segment, above \<open>scrollMax\<close> along the line of the
  last one.
\<close>

theorem background_ramp_extended:
  assumes "0 < px h"
  shows
   "hex_color ''#27282F'' = Some (39, 40, 47)
    \<and> hex_color ''#247BA0'' = Some (36, 123, 160)
    \<and> hex_color ''#70C1B3'' = Some (112, 193, 179)
    \<and> hex_color ''#e8f3f1'' = Some (232, 243, 241)
    \<and> background_color (Scene h d 0 m) = hex_color ''#27282F''
    \<and> background_color (Scene h d (scrollMax h * 0.25) m) = hex_color ''#247BA0''
    \<and> background_color (Scene h d (scrollMax h * 0.5) m) = hex_color ''#70C1B3''
    \<and> background_color (Scene h d (scrollMax h) m) = hex_color ''#e8f3f1''
    \<and> (\<forall>u. u \<le> 1 \<longrightarrow>
          background_color (Scene h d (u * (scrollMax h * 0.25)) m) =
            Some (round_color (mix (39, 40, 47) (36, 123, 160) u)))
    \<and> (\<forall>u. 0 \<le> u \<and> u \<le> 1 \<longrightarrow>
          background_color
              (Scene h d (scrollMax h * 0.25 + u * (scrollMax h * 0.5 - scrollMax h * 0.25)) m) =
            Some (round_color (mix (36, 123, 160) (112, 193, 179) u)))
    \<and> (\<forall>u. 0 \<le> u \<longrightarrow>
          background_color
              (Scene h d (scrollMax h * 0.5 + u * (scrollMax h - scrollMax h * 0.5)) m) =
            Some (round_color (mix (112, 193, 179) (232, 243, 241) u)))
    \<and> (\<forall>t1 t2. t1 \<le> t2 \<longrightarrow>
          (0 \<le> t1 \<and> t2 \<le> scrollMax h * 0.25 \<longrightarrow>
             (\<exists>p q. background_color (Scene h d t1 m) = Some p
                \<and> background_color (Scene h d t2 m) = Some q
                \<and> toward_color (39, 40, 47) (36, 123, 160) p q))
          \<and> (scrollMax h * 0.25 \<le> t1 \<and> t2 \<le> scrollMax h * 0.5 \<longrightarrow>
             (\<exists>p q. background_color (Scene h d t1 m) = Some p
                \<and> background_color (Scene h d t2 m) = Some q
                \<and> toward_color (36, 123, 160) (112, 193, 179) p q))
          \<and> (scrollMax h * 0.5 \<le> t1 \<and> t2 \<le> scrollMax h \<longrightarrow>
             (\<exists>p q. background_color (Scene h d t1 m) = Some p
                \<and> background_color (Scene h d t2 m) = Some q
                \<and> toward_color (112, 193, 179) (232, 243, 241) p q)))"
proof -
  note lin = background_linear [OF assms]
  note mono = background_monotone [OF assms]
  note stops = background_stops [OF assms]
  show ?thesis
    using lin mono stops hex_stops by (intro conjI allI impI; (elim conjE)?) blast+
qed

theorem background_ramp_extended_witness:
  "0 < px (Extent 100)
   \<and> scrollMax (Extent 100) = 450
   \<and> background_color (Scene (Extent 100) [] 450 (0, 0)) = hex_color ''#e8f3f1''
   \<and> background_color (Scene (Extent 100) [] (1 / 2 * (scrollMax (Extent 100) * 0.25)) (0, 0)) =
        Some (round_color (mix (39, 40, 47) (36, 123, 160) (1 / 2)))
   \<and> round_color (mix (39, 40, 47) (36, 123, 160) (1 / 2)) = (38, 82, 104)
   \<and> background_color (Scene (Extent 100) [] (- 1 * (scrollMax (Extent 100) * 0.25)) (0, 0)) =
        Some (round_color (mix (39, 40, 47) (36, 123, 160) (- 1)))
   \<and> round_color (mix (39, 40, 47) (36, 123, 160) (- 1)) = (42, - 43, - 66)
   \<and> (\<exists>p q. background_color (Scene (Extent 100) [] 10 (0, 0)) = Some p
         \<and> background_color (Scene (Extent 100) [] 20 (0, 0)) = Some q
         \<and> toward_color (39, 40, 47) (36, 123, 160) p q)"
proof -
  have h: "0 < px (Extent 100)" by (simp add: height_100)
  note r = background_ramp_extended [OF h, of "[]" "(0, 0)"]
  have a: "background_color (Scene (Extent 100) [] 450 (0, 0)) = hex_color ''#e8f3f1''"
    using r by (simp only: height_100)
  have "(1 / 2 :: real) \<le> 1" by simp
  then have e: "background_color (Scene (Extent 100) [] (1 / 2 * (scrollMax (Extent 100) * 0.25)) (0, 0)) =
        Some (round_color (mix (39, 40, 47) (36, 123, 160) (1 / 2)))"
    using r by blast
  have e': "round_color (mix (39, 40, 47) (36, 123, 160) (1 / 2)) = (38, 82, 104)"
    by (simp add: round_color_def mix_def red_def green_def blue_def Math_round_def)
  have "(- 1 :: real) \<le> 1" by simp
  then have b: "background_color (Scene (Extent 100) [] (- 1 * (scrollMax (Extent 100) * 0.25)) (0, 0)) =
        Some (round_color (mix (39, 40, 47) (36, 123, 160) (- 1)))"
    using r by blast
  have b': "round_color (mix (39, 40, 47) (36, 123, 160) (- 1)) = (42, - 43, - 66)"
    by (simp add: round_color_def mix_def red_def green_def blue_def Math_round_def)
  have "(10::real) \<le> 20 \<and> (0::real) \<le> 10 \<and> 20 \<le> scrollMax (Extent 100) * 0.25"
    by (simp add: height_100)
  then have f: "\<exists>p q. background_color (Scene (Extent 100) [] 10 (0, 0)) = Some p
         \<and> background_color (Scene (Extent 100) [] 20 (0, 0)) = Some q
         \<and> toward_color (39, 40, 47) (36, 123, 160) p q"
    using r by blast
  show ?thesis using h a e e' b b' f height_100(2) by blast
qed

text \<open>
  Claim C3 as the spec states it fails outside the stops: for a viewport 100 high
  (\<open>scrollMax = 450\<close>) the colour at the scroll value 1000 is \<open>(525, 365, 393)\<close> and not
  \<^verbatim>\<open>#e8f3f1\<close>, and at \<open>- 20\<close> it is \<open>(40, 25, 27)\<close> and not \<^verbatim>\<open>#27282F\<close>.
\<close>

theorem background_clamp_counterexample:
  "scrollMax (Extent 100) = 450
   \<and> background_color (Scene (Extent 100) [] 1000 (0, 0)) = Some (525, 365, 393)
   \<and> background_color (Scene (Extent 100) [] 1000 (0, 0)) \<noteq> hex_color ''#e8f3f1''
   \<and> background_color (Scene (Extent 100) [] (- 20) (0, 0)) = Some (40, 25, 27)
   \<and> background_color (Scene (Extent 100) [] (- 20) (0, 0)) \<noteq> hex_color ''#27282F''"
  by (simp add: background_beyond height_100 hex_stops del: hex_color.simps)

section \<open>Scene: what the derived parameters depend on\<close>








section \<open>Text: when the canvas is drawn again\<close>

lemma Text_hit:
  "Text p (w, h) v (Some ((txt_children p, w, h), cv)) =
     (\<lparr>sprite_scale = (if fst v > snd v then fst v else snd v, if fst v > snd v then fst v else snd v, 1),
       sprite_position = txt_position p,
       sprite_opacity = txt_opacity p,
       sprite_image = cv\<rparr>, Some ((txt_children p, w, h), cv))"
  by (simp add: Text_def useMemo_def Let_def)

lemma Text_cell:
  "\<exists>cv. snd (Text p s v c) = Some ((txt_children p, fst s, snd s), cv)
        \<and> sprite_image (fst (Text p s v c)) = cv"
  by (auto simp: Text_def useMemo_def Let_def split: option.splits prod.splits)

lemma Text_same_deps:
  "sprite_image (fst (Text (p\<lparr>txt_color := col, txt_fontSize := fs\<rparr>) s v' (snd (Text p s v c)))) =
     sprite_image (fst (Text p s v c))
   \<and> snd (Text (p\<lparr>txt_color := col, txt_fontSize := fs\<rparr>) s v' (snd (Text p s v c))) =
     snd (Text p s v c)"
proof -
  obtain cv where cv: "snd (Text p s v c) = Some ((txt_children p, fst s, snd s), cv)"
    "sprite_image (fst (Text p s v c)) = cv"
    using Text_cell by blast
  show ?thesis
    using Text_hit [of "p\<lparr>txt_color := col, txt_fontSize := fs\<rparr>" "fst s" "snd s" v' cv]
    by (simp add: cv)
qed

lemma Text_redraw_only:
  "(snd (Text p s v (Some (deps, cv))) \<noteq> Some (deps, cv)) =
     (deps \<noteq> (txt_children p, fst s, snd s))"
  by (auto simp: Text_def useMemo_def Let_def)

lemma Text_drawn_at:
  assumes "drawn_at c"
  shows "drawn_at (snd (Text p s v c))"
    and "snd (fillText (sprite_image (fst (Text p s v c)))) = (1024, 1024 - 410 / 2)"
  using assms
  by (auto simp: Text_def useMemo_def Let_def drawn_at_def draw_canvas_def split: option.splits prod.splits if_splits)

lemma Text_renders_drawn_at:
  "drawn_at c \<Longrightarrow> sp \<in> set (fst (Text_renders rs c)) \<Longrightarrow>
     snd (fillText (sprite_image sp)) = (1024, 1024 - 410 / 2)"
proof (induction rs arbitrary: c)
  case Nil
  then show ?case by simp
next
  case (Cons r rs)
  obtain p s v where r: "r = (p, s, v)" by (cases r) auto
  obtain sp1 c1 where t: "Text p s v c = (sp1, c1)" by (cases "Text p s v c") auto
  have c1: "drawn_at c1" and sp1: "snd (fillText (sprite_image sp1)) = (1024, 1024 - 410 / 2)"
    using Text_drawn_at [OF Cons.prems(1), of p s v] t by simp_all
  from Cons.prems(2) have "sp = sp1 \<or> sp \<in> set (fst (Text_renders rs c1))"
    by (auto simp: r t split: prod.splits)
  then show ?case
    using sp1 Cons.IH [OF c1] by blast
qed

text \<open>
  Claim C9: a render of the text with the same string and the same canvas size as the
  render before it, whatever colour and font size it is given, shows the canvas of the
  render before and leaves the memo as it is; the memo changes exactly when the string or
  the canvas size differs from the kept one; and in every sequence of renders the text of
  every canvas is drawn at \<open>(1024, 1024 - 410 / 2)\<close>, whatever the font size.
\<close>

theorem Text_canvas_memo:
  "sprite_image (fst (Text (p\<lparr>txt_color := col, txt_fontSize := fs\<rparr>) s v' (snd (Text p s v c)))) =
     sprite_image (fst (Text p s v c))
   \<and> snd (Text (p\<lparr>txt_color := col, txt_fontSize := fs\<rparr>) s v' (snd (Text p s v c))) =
     snd (Text p s v c)
   \<and> (snd (Text p s v (Some (deps, cv))) \<noteq> Some (deps, cv)) =
       (deps \<noteq> (txt_children p, fst s, snd s))
   \<and> (\<forall>sp \<in> set (fst (Text_renders rs None)).
        snd (fillText (sprite_image sp)) = (1024, 1024 - 410 / 2))"
proof -
  have "drawn_at None"
    by (simp add: drawn_at_def)
  then have "\<forall>sp \<in> set (fst (Text_renders rs None)).
        snd (fillText (sprite_image sp)) = (1024, 1024 - 410 / 2)"
    using Text_renders_drawn_at by blast
  then show ?thesis
    using Text_same_deps Text_redraw_only by blast
qed

theorem Text_canvas_memo_witness:
  "snd (Text lorem_props (800, 600) (8, 6) (Some ((''lorem'', 900, 600), draw_canvas ''lorem'' ''white'' 410)))
     \<noteq> Some ((''lorem'', 900, 600), draw_canvas ''lorem'' ''white'' 410)
   \<and> (''lorem'', 900 :: real, 600 :: real) \<noteq> (txt_children lorem_props, 800, 600)
   \<and> map (\<lambda>sp. (font_px (sprite_image sp), fillText (sprite_image sp)))
        (fst (Text_renders
          [(lorem_props, (800, 600), (8, 6)),
           (lorem_props\<lparr>txt_color := Some ''red'', txt_fontSize := Some 150\<rparr>, (800, 600), (8, 6)),
           (lorem_props\<lparr>txt_color := Some ''red'', txt_fontSize := Some 150\<rparr>, (900, 600), (8, 6))] None)) =
       [(410, ''lorem'', 1024, 819), (410, ''lorem'', 1024, 819), (150, ''lorem'', 1024, 819)]"
  using Text_canvas_memo [where p = lorem_props and s = "(800, 600)" and v = "(8, 6)"
      and col = "Some ''red''" and fs = "Some 150" and v' = "(8, 6)" and c = None
      and deps = "(''lorem'', 900, 600)" and cv = "draw_canvas ''lorem'' ''white'' 410"
      and rs = "[(lorem_props, (800, 600), (8, 6)),
        (lorem_props\<lparr>txt_color := Some ''red'', txt_fontSize := Some 150\<rparr>, (800, 600), (8, 6)),
        (lorem_props\<lparr>txt_color := Some ''red'', txt_fontSize := Some 150\<rparr>, (900, 600), (8, 6))]"]
  by (simp add: lorem_props_def Text_def useMemo_def draw_canvas_def Let_def)

end
